theory Spec2Isabelle
  imports Main "HOL-Library.Multiset"
begin

section \<open>remote\_grep: a shallow embedding of \<^verbatim>\<open>src/remote_grep.py\<close>\<close>

text \<open>
  The program runs a \<^verbatim>\<open>grep\<close> over SSH on a list of hosts and optionally downloads the
  files that matched. Everything the Python code obtains from outside (the network, the
  remote shell, the local file system, the order in which futures complete) is an explicit
  argument of the model; every \<^verbatim>\<open>raise\<close> is a value.

  A Python \<^verbatim>\<open>str\<close> is modelled as a \<^typ>\<open>string\<close>, one \<^typ>\<open>char\<close> per code point; the
  model therefore covers the code points 0 to 255. Python's \<^verbatim>\<open>int\<close> is \<^typ>\<open>int\<close>.

  Standard output is an argument too: \<^verbatim>\<open>print\<close> can raise (an encoding error, a closed
  pipe), and most calls of \<^verbatim>\<open>print\<close> in \<^verbatim>\<open>main\<close> stand outside every \<^verbatim>\<open>try\<close>.

  Not modelled: the size of the thread pool and \<^verbatim>\<open>parse_args\<close>.
\<close>

subsection \<open>Data classes and exceptions\<close>

record HostConfig =
  hostname :: string
  ip :: string
  username :: string
  password :: string
  port :: int

text \<open>
  The exception classes the code distinguishes. \<^verbatim>\<open>AuthenticationException\<close> is a subclass
  of \<^verbatim>\<open>SSHException\<close>; \<^verbatim>\<open>socket.error\<close> is \<^verbatim>\<open>OSError\<close>, of which
  \<^verbatim>\<open>FileNotFoundError\<close> and \<^verbatim>\<open>PermissionError\<close> are subclasses. \<open>OtherException\<close> stands
  for every other subclass of \<^verbatim>\<open>Exception\<close>. The string is \<^verbatim>\<open>str(e)\<close>.
\<close>

datatype exn_class =
  AuthenticationException | SSHException | OSError | FileNotFoundError | PermissionError
  | OtherException

datatype exn = Exn exn_class string

fun exn_str :: "exn \<Rightarrow> string" where
  "exn_str (Exn c m) = m"

fun exn_cls :: "exn \<Rightarrow> exn_class" where
  "exn_cls (Exn c m) = c"

fun isinstance_SSHException :: "exn_class \<Rightarrow> bool" where
  "isinstance_SSHException AuthenticationException = True"
| "isinstance_SSHException SSHException = True"
| "isinstance_SSHException _ = False"

fun isinstance_OSError :: "exn_class \<Rightarrow> bool" where
  "isinstance_OSError OSError = True"
| "isinstance_OSError FileNotFoundError = True"
| "isinstance_OSError PermissionError = True"
| "isinstance_OSError _ = False"

text \<open>
  The handler \<^verbatim>\<open>except (paramiko.AuthenticationException, paramiko.SSHException, socket.error)\<close>
  of \<^verbatim>\<open>run_list_on_host\<close> and \<^verbatim>\<open>sftp_download_files\<close>.
\<close>

definition caught_ssh_network :: "exn \<Rightarrow> bool" where
  "caught_ssh_network e =
     (exn_cls e = AuthenticationException \<or> isinstance_SSHException (exn_cls e)
      \<or> isinstance_OSError (exn_cls e))"

subsection \<open>Library string functions used by the code\<close>

text \<open>
  \<^verbatim>\<open>shlex.quote\<close> (CPython, \<^verbatim>\<open>Lib/shlex.py\<close>): the empty string becomes \<^verbatim>\<open>''\<close>; a string
  of characters matching \<^verbatim>\<open>[\w@%+=:,./-]\<close> under \<^verbatim>\<open>re.ASCII\<close> is returned as it is; any
  other string is wrapped in single quotes, each single quote inside replaced by
  \<^verbatim>\<open>'"'"'\<close>.
\<close>

definition shlex_safe_chars :: string where
  "shlex_safe_chars =
     ''abcdefghijklmnopqrstuvwxyzABCDEFGHIJKLMNOPQRSTUVWXYZ0123456789_@%+=:,./-''"

definition find_unsafe :: "string \<Rightarrow> bool" where
  "find_unsafe s = list_ex (\<lambda>c. c \<notin> set shlex_safe_chars) s"

definition replace_quote :: "string \<Rightarrow> string" where
  "replace_quote s =
     concat (map (\<lambda>c. if c = CHR 0x27
                       then [CHR 0x27, CHR 0x22, CHR 0x27, CHR 0x22, CHR 0x27]
                       else [c]) s)"

definition shlex_quote :: "string \<Rightarrow> string" where
  "shlex_quote s =
     (if s = [] then [CHR 0x27, CHR 0x27]
      else if \<not> find_unsafe s then s
      else [CHR 0x27] @ replace_quote s @ [CHR 0x27])"

text \<open>
  \<^verbatim>\<open>str.splitlines()\<close>: the line boundaries below 256 are LF, VT, FF, CR, FS, GS, RS and
  NEL; CR LF is one boundary; the boundaries are dropped and a trailing boundary opens no
  further line. The first argument collects the current line, reversed.
\<close>

definition is_linebreak :: "char \<Rightarrow> bool" where
  "is_linebreak c =
     (c \<in> set [CHR 0x0A, CHR 0x0B, CHR 0x0C, CHR 0x0D, CHR 0x1C, CHR 0x1D, CHR 0x1E, CHR 0x85])"

fun splitlines_from :: "string \<Rightarrow> string \<Rightarrow> string list" where
  "splitlines_from cur [] = (if cur = [] then [] else [rev cur])"
| "splitlines_from cur [c] =
     (if is_linebreak c then [rev cur] else [rev (c # cur)])"
| "splitlines_from cur (c # d # cs) =
     (if c = CHR 0x0D \<and> d = CHR 0x0A then rev cur # splitlines_from [] cs
      else if is_linebreak c then rev cur # splitlines_from [] (d # cs)
      else splitlines_from (c # cur) (d # cs))"

definition splitlines :: "string \<Rightarrow> string list" where
  "splitlines s = splitlines_from [] s"

text \<open>
  \<^verbatim>\<open>str.strip()\<close> without argument removes leading and trailing white space; the white
  space below 256 is TAB, LF, VT, FF, CR, FS, GS, RS, US, space, NEL and NBSP.
\<close>

definition is_space :: "char \<Rightarrow> bool" where
  "is_space c =
     (c \<in> set [CHR 0x09, CHR 0x0A, CHR 0x0B, CHR 0x0C, CHR 0x0D, CHR 0x1C, CHR 0x1D, CHR 0x1E,
                CHR 0x1F, CHR 0x20, CHR 0x85, CHR 0xA0])"

definition strip :: "string \<Rightarrow> string" where
  "strip s = rev (dropWhile is_space (rev (dropWhile is_space s)))"

text \<open>\<^verbatim>\<open>rpath.lstrip("/")\<close> and \<^verbatim>\<open>head.rstrip("/")\<close>.\<close>

definition lstrip_slash :: "string \<Rightarrow> string" where
  "lstrip_slash s = dropWhile (\<lambda>c. c = CHR ''/'') s"

definition rstrip_slash :: "string \<Rightarrow> string" where
  "rstrip_slash s = rev (dropWhile (\<lambda>c. c = CHR ''/'') (rev s))"

text \<open>
  \<^verbatim>\<open>os.path.join\<close> and \<^verbatim>\<open>os.path.dirname\<close> of \<^verbatim>\<open>posixpath\<close>: a component that starts
  with the separator discards what was joined before it; otherwise it is appended, after a
  separator unless the path so far is empty or ends with one. \<^verbatim>\<open>dirname\<close> keeps the part
  up to the last separator and strips its trailing separators unless it consists of
  separators only.
\<close>

definition join_step :: "string \<Rightarrow> string \<Rightarrow> string" where
  "join_step path b =
     (if b \<noteq> [] \<and> hd b = CHR ''/'' then b
      else if path = [] \<or> last path = CHR ''/'' then path @ b
      else path @ ''/'' @ b)"

definition os_path_join :: "string \<Rightarrow> string list \<Rightarrow> string" where
  "os_path_join a p = foldl join_step a p"

definition os_path_dirname :: "string \<Rightarrow> string" where
  "os_path_dirname p =
     (let head = rev (dropWhile (\<lambda>c. c \<noteq> CHR ''/'') (rev p))
      in if head \<noteq> [] \<and> \<not> list_all (\<lambda>c. c = CHR ''/'') head then rstrip_slash head
         else head)"

subsection \<open>The command formatter\<close>

text \<open>
  \<^verbatim>\<open>inner = f"LC_ALL=C grep -iln -- {shlex.quote(search)} {path_glob}"\<close>;
  \<^verbatim>\<open>return "bash -c " + shlex.quote(inner)\<close>.
\<close>

definition build_list_inner :: "string \<Rightarrow> string \<Rightarrow> string" where
  "build_list_inner search path_glob =
     ''LC_ALL=C grep -iln -- '' @ shlex_quote search @ '' '' @ path_glob"

definition build_list_command :: "string \<Rightarrow> string \<Rightarrow> string" where
  "build_list_command search path_glob =
     ''bash -c '' @ shlex_quote (build_list_inner search path_glob)"

subsection \<open>The remote search runner\<close>

text \<open>
  What one worker meets on the network. \<open>connect\<close> is \<^verbatim>\<open>connect_ssh(host, timeout)\<close>:
  \<open>None\<close> when the client is connected, the exception otherwise. \<open>exec_command\<close> is the
  remote execution of a command string with a timeout: the decoded standard output, the
  decoded standard error and the exit status, or the exception that \<^verbatim>\<open>exec_command\<close> or
  a \<^verbatim>\<open>read\<close> raised. Closing the client never raises past its own handler.
\<close>

record search_env =
  connect :: "HostConfig \<Rightarrow> int \<Rightarrow> exn option"
  exec_command :: "string \<Rightarrow> int \<Rightarrow> exn + (string \<times> string \<times> int)"

type_synonym host_result = "string \<times> int \<times> string list \<times> string"

text \<open>
  \<^verbatim>\<open>paths = [line.strip() for line in out.splitlines() if line.strip()]\<close>
\<close>

definition parse_paths :: "string \<Rightarrow> string list" where
  "parse_paths out = map strip (filter (\<lambda>line. strip line \<noteq> []) (splitlines out))"

text \<open>
  \<^verbatim>\<open>run_list_on_host\<close> returns the tuple (hostname, exit code, paths, stderr text) or
  raises; the second component of the model's result lists the command strings handed to
  the remote side, in order.
\<close>

definition run_list_on_host ::
  "search_env \<Rightarrow> HostConfig \<Rightarrow> string \<Rightarrow> string \<Rightarrow> int \<Rightarrow> (exn + host_result) \<times> string list" where
  "run_list_on_host env host search path_glob timeout =
     (case connect env host timeout of
        Some e \<Rightarrow>
          (if caught_ssh_network e
           then (Inr (hostname host, 255, [], ''SSH/Network error: '' @ exn_str e), [])
           else (Inl e, []))
      | None \<Rightarrow>
          (let cmd = build_list_command search path_glob in
           case exec_command env cmd timeout of
             Inl e \<Rightarrow> (Inl e, [cmd])
           | Inr (out, err, exit_status) \<Rightarrow>
               (Inr (hostname host, exit_status, parse_paths out, err), [cmd])))"

subsection \<open>The artifact retriever\<close>

text \<open>
  What \<^verbatim>\<open>sftp_download_files\<close> meets: its own \<^verbatim>\<open>connect_ssh\<close>, then
  \<^verbatim>\<open>client.open_sftp()\<close>, and for each path \<^verbatim>\<open>os.makedirs(local_dir, exist_ok=True)\<close> on
  the local file system and \<^verbatim>\<open>sftp.get(rpath, local_path)\<close>. Each answers \<open>None\<close> when
  the call returns and the exception when it raises.
\<close>

record sftp_env =
  sftp_connect :: "HostConfig \<Rightarrow> int \<Rightarrow> exn option"
  open_sftp :: "exn option"
  makedirs :: "string \<Rightarrow> exn option"
  sftp_get :: "string \<Rightarrow> string \<Rightarrow> exn option"

text \<open>
  The state of the \<^verbatim>\<open>for rpath in paths\<close> loop: the list \<open>downloaded\<close> of the source, the
  lines printed to standard error, and the remote paths for which \<^verbatim>\<open>sftp.get\<close> has been
  called.
\<close>

record dl_state =
  downloaded :: "(string \<times> string) list"
  stderr_lines :: "string list"
  get_calls :: "string list"

definition local_path_of :: "string \<Rightarrow> HostConfig \<Rightarrow> string \<Rightarrow> string" where
  "local_path_of dest_root host rpath =
     os_path_join dest_root [hostname host, lstrip_slash rpath]"

text \<open>The three handlers around \<^verbatim>\<open>sftp.get\<close>, in the order of the source.\<close>

definition get_warning :: "HostConfig \<Rightarrow> string \<Rightarrow> exn \<Rightarrow> string" where
  "get_warning host rpath e =
     (if exn_cls e = FileNotFoundError
        then ''[WARN] '' @ hostname host @ '': Remote file not found: '' @ rpath
      else if exn_cls e = PermissionError
        then ''[WARN] '' @ hostname host @ '': Permission denied: '' @ rpath
      else ''[WARN] '' @ hostname host @ '': Failed to download '' @ rpath @ '': '' @ exn_str e)"

text \<open>
  The loop body calls \<^verbatim>\<open>os.makedirs\<close> outside the inner \<^verbatim>\<open>try\<close>: an exception of
  \<^verbatim>\<open>os.makedirs\<close> leaves the loop and, after the \<^verbatim>\<open>finally\<close> block, the function.
\<close>

fun download_loop ::
  "sftp_env \<Rightarrow> HostConfig \<Rightarrow> string \<Rightarrow> string list \<Rightarrow> dl_state \<Rightarrow> dl_state \<times> exn option" where
  "download_loop env host dest_root [] st = (st, None)"
| "download_loop env host dest_root (rpath # rest) st =
     (let local_path = local_path_of dest_root host rpath;
          local_dir = os_path_dirname local_path
      in case makedirs env local_dir of
           Some e \<Rightarrow> (st, Some e)
         | None \<Rightarrow>
             (let st1 = st\<lparr>get_calls := get_calls st @ [rpath]\<rparr>
              in case sftp_get env rpath local_path of
                   None \<Rightarrow>
                     download_loop env host dest_root rest
                       (st1\<lparr>downloaded := downloaded st1 @ [(rpath, local_path)]\<rparr>)
                 | Some e \<Rightarrow>
                     download_loop env host dest_root rest
                       (st1\<lparr>stderr_lines := stderr_lines st1 @ [get_warning host rpath e]\<rparr>)))"

definition dl_init :: dl_state where
  "dl_init = \<lparr>downloaded = [], stderr_lines = [], get_calls = []\<rparr>"

text \<open>
  The first \<^verbatim>\<open>try\<close> covers \<^verbatim>\<open>connect_ssh\<close> and \<^verbatim>\<open>open_sftp\<close>; \<open>session_error\<close> is the
  exception it meets, if any.
\<close>

definition session_error :: "sftp_env \<Rightarrow> HostConfig \<Rightarrow> int \<Rightarrow> exn option" where
  "session_error env host timeout =
     (case sftp_connect env host timeout of Some e \<Rightarrow> Some e | None \<Rightarrow> open_sftp env)"

text \<open>
  The model returns what the function returns or raises, together with the final loop
  state (standard error lines and \<^verbatim>\<open>sftp.get\<close> calls).
\<close>

definition sftp_download_files ::
  "sftp_env \<Rightarrow> HostConfig \<Rightarrow> string list \<Rightarrow> string \<Rightarrow> int
     \<Rightarrow> (exn + (string \<times> string) list) \<times> dl_state" where
  "sftp_download_files env host paths dest_root timeout =
     (case session_error env host timeout of
        Some e \<Rightarrow>
          (if caught_ssh_network e
           then (Inr [],
                 dl_init\<lparr>stderr_lines :=
                   [''[ERROR] '' @ hostname host @ '': SFTP connect failed: '' @ exn_str e]\<rparr>)
           else (Inl e, dl_init))
      | None \<Rightarrow>
          (case download_loop env host dest_root paths dl_init of
             (st, Some e) \<Rightarrow> (Inl e, st)
           | (st, None) \<Rightarrow> (Inr (downloaded st), st)))"

subsection \<open>Outcome classification\<close>

text \<open>
  The source has no status type; it classifies a host by its exit code in the
  \<^verbatim>\<open>if\<close>/\<^verbatim>\<open>elif\<close> chain of \<^verbatim>\<open>print_host_results\<close> (0: matches found, 1: no matches,
  2: grep reported an error, 255: SSH/network failure, otherwise: a non-zero exit code).
  \<open>outcome_status\<close> follows that chain and names the classes as the specification does.
\<close>

datatype OutcomeStatus = Matched | NoMatch | RemoteError | ConnectionFailure

definition outcome_status :: "int \<Rightarrow> OutcomeStatus" where
  "outcome_status exit_code =
     (if exit_code = 0 then Matched
      else if exit_code = 1 then NoMatch
      else if exit_code = 2 then RemoteError
      else if exit_code = 255 then ConnectionFailure
      else RemoteError)"

subsection \<open>Printing to standard output\<close>

text \<open>
  Standard output answers each \<^verbatim>\<open>print(s)\<close> from the string: \<open>None\<close> when the call
  returns, the exception when it raises. A sequence of calls stops at the first that
  raises.
\<close>

type_synonym stdout = "string \<Rightarrow> exn option"

fun prints :: "stdout \<Rightarrow> string list \<Rightarrow> exn option" where
  "prints out [] = None"
| "prints out (s # ss) = (case out s of Some e \<Rightarrow> Some e | None \<Rightarrow> prints out ss)"

text \<open>\<^verbatim>\<open>str(n)\<close> of an integer, as the f-strings format it.\<close>

definition digit_char :: "nat \<Rightarrow> char" where
  "digit_char d = ''0123456789'' ! (d mod 10)"

function str_nat :: "nat \<Rightarrow> string" where
  "str_nat n = (if n < 10 then [digit_char n] else str_nat (n div 10) @ [digit_char (n mod 10)])"
  by pat_completeness auto
termination
  by (relation "measure (\<lambda>n. n)") auto

declare str_nat.simps [simp del]

definition str_int :: "int \<Rightarrow> string" where
  "str_int i = (if i < 0 then ''-'' @ str_nat (nat (- i)) else str_nat (nat i))"

text \<open>\<^verbatim>\<open>err.rstrip()\<close> and \<^verbatim>\<open>sep = "=" * 80\<close>.\<close>

definition rstrip :: "string \<Rightarrow> string" where
  "rstrip s = rev (dropWhile is_space (rev s))"

definition sep :: string where
  "sep = replicate 80 (CHR ''='')"

text \<open>The last \<^verbatim>\<open>print\<close> of \<^verbatim>\<open>print_host_results\<close>: the \<^verbatim>\<open>if\<close>/\<^verbatim>\<open>elif\<close> chain on the exit code.\<close>

definition exit_message :: "string \<Rightarrow> int \<Rightarrow> string" where
  "exit_message hn exit_code =
     (if exit_code = 0 then ''\<newline>[INFO] Matches found on '' @ hn @ ''.''
      else if exit_code = 1 then ''\<newline>[INFO] No matches found on '' @ hn @ ''.''
      else if exit_code = 2
        then ''\<newline>[WARN] Grep reported an error on '' @ hn @ '' (exit 2).''
      else if exit_code = 255
        then ''\<newline>[ERROR] SSH/Network failure contacting '' @ hn @ ''.''
      else ''\<newline>[WARN] Non-zero exit code '' @ str_int exit_code @ '' on '' @ hn @ ''.'')"

text \<open>
  \<^verbatim>\<open>print_host_results(hostname, exit_code, paths, err)\<close>: the arguments of its calls of
  \<^verbatim>\<open>print\<close>, in order, and the function itself, which returns or raises what a
  \<^verbatim>\<open>print\<close> raised.
\<close>

definition host_report :: "string \<Rightarrow> int \<Rightarrow> string list \<Rightarrow> string \<Rightarrow> string list" where
  "host_report hn exit_code paths err =
     [''\<newline>'' @ sep @ ''\<newline>Host: '' @ hn @ ''\<newline>Exit: '' @ str_int exit_code
        @ ''\<newline>'' @ sep]
     @ (if paths \<noteq> []
        then ''Matched files:'' # map (\<lambda>p. ''  Host: '' @ hn @ '' | Path: '' @ p) paths
        else [''Matched files: (none)''])
     @ (if strip err \<noteq> [] then [''\<newline>[stderr]\<newline>'' @ rstrip err] else [])
     @ [exit_message hn exit_code]"

definition print_host_results ::
  "stdout \<Rightarrow> string \<Rightarrow> int \<Rightarrow> string list \<Rightarrow> string \<Rightarrow> exn option" where
  "print_host_results out hn exit_code paths err = prints out (host_report hn exit_code paths err)"

text \<open>
  The report of the downloaded files in \<^verbatim>\<open>main\<close>: \<^verbatim>\<open>if dl:\<close> a heading and one line for
  each pair.
\<close>

definition download_report :: "string \<Rightarrow> (string \<times> string) list \<Rightarrow> string list" where
  "download_report hn dl =
     (if dl \<noteq> []
      then ''\<newline>Downloaded files:''
           # map (\<lambda>(r, l). ''  Host: '' @ hn @ '' | Remote: '' @ r @ '' -> Local: '' @ l) dl
      else [])"

subsection \<open>The scheduler: \<^verbatim>\<open>main\<close>\<close>

record args =
  search :: string
  path :: string
  download :: int
  dest :: string
  parallel :: int
  timeout :: int

text \<open>
  A completed future: the host it was submitted for (\<^verbatim>\<open>futures[fut]\<close>), the network its
  worker met and the environment a retrieval for it meets. \<^verbatim>\<open>main\<close> submits one future
  per host and \<^verbatim>\<open>as_completed\<close> yields every future once, in completion order: the list
  of completed futures handed to the model is a permutation of the submitted ones.
\<close>

record future =
  fut_host :: HostConfig
  fut_net :: search_env
  fut_sftp :: sftp_env

text \<open>
  The lists \<open>results\<close> and \<open>downloads_summary\<close> of the source, and the calls of
  \<^verbatim>\<open>sftp_download_files\<close> made so far: the host, the paths, and what the call did (its
  lines on standard error and its calls of \<^verbatim>\<open>sftp.get\<close>).
\<close>

record sched_state =
  results :: "(string \<times> int \<times> nat) list"
  downloads_summary :: "(string \<times> string \<times> string) list"
  retrievals :: "(HostConfig \<times> string list \<times> dl_state) list"

definition sched_init :: sched_state where
  "sched_init = \<lparr>results = [], downloads_summary = [], retrievals = []\<rparr>"

text \<open>
  \<^verbatim>\<open>fut.result()\<close> inside \<^verbatim>\<open>try\<close>/\<^verbatim>\<open>except Exception\<close>: an exception of the worker
  becomes the tuple with exit code 255, no paths and the text of the exception.
\<close>

definition fut_result :: "args \<Rightarrow> future \<Rightarrow> host_result" where
  "fut_result a f =
     (case fst (run_list_on_host (fut_net f) (fut_host f) (search a) (path a) (timeout a)) of
        Inr r \<Rightarrow> r
      | Inl e \<Rightarrow> (hostname (fut_host f), 255, [], ''Unhandled exception: '' @ exn_str e))"

text \<open>
  The body of \<^verbatim>\<open>for fut in as_completed(futures)\<close>: \<^verbatim>\<open>print_host_results\<close>, then
  \<^verbatim>\<open>results.append\<close>, then, if requested, the retrieval, the report of the downloaded
  files and \<^verbatim>\<open>downloads_summary.extend\<close>. Nothing catches an exception of a \<^verbatim>\<open>print\<close> or
  of \<^verbatim>\<open>sftp_download_files\<close>: it leaves the loop and \<^verbatim>\<open>main\<close>. The body returns the state
  reached and the exception, if one was raised.
\<close>

definition handle_future ::
  "stdout \<Rightarrow> args \<Rightarrow> future \<Rightarrow> sched_state \<Rightarrow> sched_state \<times> exn option" where
  "handle_future out a f st =
     (case fut_result a f of
        (hostname', exit_code, paths, err) \<Rightarrow>
          (case print_host_results out hostname' exit_code paths err of
             Some e \<Rightarrow> (st, Some e)
           | None \<Rightarrow>
              (let st1 = st\<lparr>results := results st @ [(hostname', exit_code, length paths)]\<rparr>
               in if download a = 1 \<and> exit_code = 0 \<and> paths \<noteq> []
                  then
                    (let run = sftp_download_files (fut_sftp f) (fut_host f) paths (dest a)
                                 (timeout a);
                         st2 = st1\<lparr>retrievals :=
                                     retrievals st1 @ [(fut_host f, paths, snd run)]\<rparr>
                     in case fst run of
                          Inl e \<Rightarrow> (st2, Some e)
                        | Inr dl \<Rightarrow>
                            (case prints out (download_report hostname' dl) of
                               Some e \<Rightarrow> (st2, Some e)
                             | None \<Rightarrow>
                                 (st2\<lparr>downloads_summary :=
                                        downloads_summary st2
                                          @ map (\<lambda>(r, l). (hostname', r, l)) dl\<rparr>,
                                  None)))
                  else (st1, None))))"

fun main_loop ::
  "stdout \<Rightarrow> args \<Rightarrow> future list \<Rightarrow> sched_state \<Rightarrow> sched_state \<times> exn option" where
  "main_loop out a [] st = (st, None)"
| "main_loop out a (f # fs) st =
     (case handle_future out a f st of
        (st', Some e) \<Rightarrow> (st', Some e)
      | (st', None) \<Rightarrow> main_loop out a fs st')"

text \<open>The summary: each count is \<^verbatim>\<open>sum(1 for ... in results if ...)\<close>.\<close>

definition count_if :: "('a \<Rightarrow> bool) \<Rightarrow> 'a list \<Rightarrow> nat" where
  "count_if P xs = sum_list (map (\<lambda>_. 1) (filter P xs))"

definition total_hosts :: "(string \<times> int \<times> nat) list \<Rightarrow> nat" where
  "total_hosts rs = length rs"

definition matched_hosts :: "(string \<times> int \<times> nat) list \<Rightarrow> nat" where
  "matched_hosts rs = count_if (\<lambda>(_, code, cnt). code = 0 \<and> cnt > 0) rs"

definition no_match_hosts :: "(string \<times> int \<times> nat) list \<Rightarrow> nat" where
  "no_match_hosts rs = count_if (\<lambda>(_, code, cnt). code = 1 \<or> cnt = 0) rs"

definition error_hosts :: "(string \<times> int \<times> nat) list \<Rightarrow> nat" where
  "error_hosts rs = count_if (\<lambda>(_, code, _). code \<notin> {0, 1}) rs"

text \<open>
  The numbers of the printed summary; the number of downloaded files is printed only when
  \<^verbatim>\<open>args.download == 1\<close>.
\<close>

record RunSummary =
  hosts_total :: nat
  matches_on :: nat
  no_matches :: nat
  errors :: nat
  files_downloaded :: "nat option"

definition summary :: "args \<Rightarrow> sched_state \<Rightarrow> RunSummary" where
  "summary a st =
     \<lparr>hosts_total = total_hosts (results st),
      matches_on = matched_hosts (results st),
      no_matches = no_match_hosts (results st),
      errors = error_hosts (results st),
      files_downloaded =
        (if download a = 1
         then Some (if downloads_summary st \<noteq> [] then length (downloads_summary st) else 0)
         else None)\<rparr>"

text \<open>The calls of \<^verbatim>\<open>print\<close> that write the summary.\<close>

definition summary_report :: "RunSummary \<Rightarrow> string list" where
  "summary_report sm =
     [''\<newline>Summary:'',
      ''  Hosts total : '' @ str_int (int (hosts_total sm)),
      ''  Matches on  : '' @ str_int (int (matches_on sm)),
      ''  No matches  : '' @ str_int (int (no_matches sm)),
      ''  Errors      : '' @ str_int (int (errors sm))]
     @ (case files_downloaded sm of
          Some n \<Rightarrow> [''  Files downloaded: '' @ str_int (int n)]
        | None \<Rightarrow> [])"

text \<open>
  \<^verbatim>\<open>main\<close> after \<^verbatim>\<open>parse_args\<close>. \<open>loaded\<close> is the outcome of the first \<^verbatim>\<open>try\<close>
  (\<^verbatim>\<open>load_hosts\<close>, which raises \<^verbatim>\<open>ValueError\<close> for an empty host list, and
  \<^verbatim>\<open>print(hosts)\<close>): the exception raised there, or the hosts. \<^verbatim>\<open>main\<close> returns 2 when
  that \<^verbatim>\<open>try\<close> raised, raises what the loop or a \<^verbatim>\<open>print\<close> of the summary raised, and
  otherwise returns 0 or 1.
\<close>

datatype main_result = Raised exn | Returned int "RunSummary option"

definition main ::
  "stdout \<Rightarrow> args \<Rightarrow> exn + HostConfig list \<Rightarrow> future list \<Rightarrow> main_result" where
  "main out a loaded completed =
     (case loaded of
        Inl e \<Rightarrow> Returned 2 None
      | Inr hosts \<Rightarrow>
          (case main_loop out a completed sched_init of
             (st, Some e) \<Rightarrow> Raised e
           | (st, None) \<Rightarrow>
               (case prints out (summary_report (summary a st)) of
                  Some e \<Rightarrow> Raised e
                | None \<Rightarrow>
                    Returned (if error_hosts (results st) = 0 then 0 else 1)
                      (Some (summary a st)))))"

text \<open>
  \<^verbatim>\<open>sys.exit(main())\<close>: the exit status of the process is the value \<^verbatim>\<open>main\<close> returns; an
  exception that leaves \<^verbatim>\<open>main\<close> ends the interpreter with exit status 1.
\<close>

definition process_exit_status :: "main_result \<Rightarrow> int" where
  "process_exit_status r = (case r of Returned rc sm \<Rightarrow> rc | Raised e \<Rightarrow> 1)"

subsection \<open>Notions used in the statements\<close>

definition exit_code_of :: "host_result \<Rightarrow> int" where
  "exit_code_of r = fst (snd r)"

definition paths_of :: "host_result \<Rightarrow> string list" where
  "paths_of r = fst (snd (snd r))"

text \<open>For one remote path: \<^verbatim>\<open>os.makedirs\<close> returns, and \<^verbatim>\<open>sftp.get\<close> returns.\<close>

definition mkdir_ok :: "sftp_env \<Rightarrow> string \<Rightarrow> HostConfig \<Rightarrow> string \<Rightarrow> bool" where
  "mkdir_ok env dest_root host rpath =
     (makedirs env (os_path_dirname (local_path_of dest_root host rpath)) = None)"


text \<open>
  For a completed future: the tuple appended to \<open>results\<close>, the condition of
  \<^verbatim>\<open>if args.download == 1 and exit_code == 0 and paths\<close>, the call of
  \<^verbatim>\<open>sftp_download_files\<close> the loop body makes when the condition holds, the triples that
  call adds to \<open>downloads_summary\<close>, and the exception with which the loop body ends, if
  any.
\<close>

definition result_entry :: "args \<Rightarrow> future \<Rightarrow> string \<times> int \<times> nat" where
  "result_entry a f =
     (fst (fut_result a f), exit_code_of (fut_result a f), length (paths_of (fut_result a f)))"

definition wants_retrieval :: "args \<Rightarrow> future \<Rightarrow> bool" where
  "wants_retrieval a f =
     (download a = 1 \<and> exit_code_of (fut_result a f) = 0 \<and> paths_of (fut_result a f) \<noteq> [])"

definition retrieval_run ::
  "args \<Rightarrow> future \<Rightarrow> (exn + (string \<times> string) list) \<times> dl_state" where
  "retrieval_run a f =
     sftp_download_files (fut_sftp f) (fut_host f) (paths_of (fut_result a f)) (dest a)
       (timeout a)"

definition host_downloads :: "args \<Rightarrow> future \<Rightarrow> (string \<times> string \<times> string) list" where
  "host_downloads a f =
     (if wants_retrieval a f
      then (case fst (retrieval_run a f) of
              Inr dl \<Rightarrow> map (\<lambda>(r, l). (fst (fut_result a f), r, l)) dl
            | Inl e \<Rightarrow> [])
      else [])"

definition future_exn :: "stdout \<Rightarrow> args \<Rightarrow> future \<Rightarrow> exn option" where
  "future_exn out a f =
     (case print_host_results out (fst (fut_result a f)) (exit_code_of (fut_result a f))
             (paths_of (fut_result a f)) (snd (snd (snd (fut_result a f)))) of
        Some e \<Rightarrow> Some e
      | None \<Rightarrow>
          (if wants_retrieval a f
           then (case fst (retrieval_run a f) of
                   Inl e \<Rightarrow> Some e
                 | Inr dl \<Rightarrow> prints out (download_report (fst (fut_result a f)) dl))
           else None))"

text \<open>
  The worker of a future failed before any result: \<^verbatim>\<open>connect_ssh\<close> raised, or
  \<^verbatim>\<open>run_list_on_host\<close> raised.
\<close>

definition worker_failed :: "args \<Rightarrow> future \<Rightarrow> bool" where
  "worker_failed a f =
     ((\<exists>e. connect (fut_net f) (fut_host f) (timeout a) = Some e)
      \<or> isl (fst (run_list_on_host (fut_net f) (fut_host f) (search a) (path a) (timeout a))))"

text \<open>What \<^verbatim>\<open>main\<close> returned and printed as its summary, if it returned.\<close>

fun returned :: "main_result \<Rightarrow> (int \<times> RunSummary option) option" where
  "returned (Raised e) = None"
| "returned (Returned rc sm) = Some (rc, sm)"

subsection \<open>Example inputs\<close>

definition ex_host :: HostConfig where
  "ex_host =
     \<lparr>hostname = ''h1'', ip = ''10.0.0.1'', username = ''u'', password = ''p'', port = 22\<rparr>"

text \<open>A host that is reached and whose command gives this output and exit status.\<close>

definition env_exit :: "string \<Rightarrow> string \<Rightarrow> int \<Rightarrow> search_env" where
  "env_exit out err code =
     \<lparr>connect = (\<lambda>_ _. None), exec_command = (\<lambda>_ _. Inr (out, err, code))\<rparr>"

text \<open>A host for which \<^verbatim>\<open>connect_ssh\<close> raises.\<close>

definition env_unreachable :: "exn \<Rightarrow> search_env" where
  "env_unreachable e =
     \<lparr>connect = (\<lambda>_ _. Some e), exec_command = (\<lambda>_ _. Inr ([], [], 0))\<rparr>"

text \<open>The local directory \<^verbatim>\<open>out/h1/a\<close> cannot be created; every transfer would succeed.\<close>

definition env_mkdir_denied :: sftp_env where
  "env_mkdir_denied =
     \<lparr>sftp_connect = (\<lambda>_ _. None), open_sftp = None,
      makedirs = (\<lambda>d. if d = ''out/h1/a'' then Some (Exn PermissionError ''denied'') else None),
      sftp_get = (\<lambda>_ _. None)\<rparr>"

text \<open>The remote file \<^verbatim>\<open>/a/x\<close> has vanished; every other transfer succeeds.\<close>

definition env_get_missing :: sftp_env where
  "env_get_missing =
     \<lparr>sftp_connect = (\<lambda>_ _. None), open_sftp = None,
      makedirs = (\<lambda>_. None),
      sftp_get = (\<lambda>r _. if r = ''/a/x'' then Some (Exn FileNotFoundError ''gone'') else None)\<rparr>"

definition ex_args :: args where
  "ex_args =
     \<lparr>search = ''Retorno:99'', path = ''/var/log/*'', download = 1, dest = ''out'',
      parallel = 4, timeout = 120\<rparr>"

definition ex_host2 :: HostConfig where
  "ex_host2 =
     \<lparr>hostname = ''h2'', ip = ''10.0.0.2'', username = ''u'', password = ''p'', port = 22\<rparr>"

text \<open>
  Five completed futures: \<^verbatim>\<open>h1\<close> matched two files, of which one has vanished when it is
  fetched; \<^verbatim>\<open>h1\<close> matched two files and the local directory of the first cannot be
  created; \<^verbatim>\<open>h2\<close> could not be reached; \<^verbatim>\<open>h2\<close> had no match; \<^verbatim>\<open>h2\<close> matched one file
  that can be fetched.
\<close>

definition fut_matched :: future where
  "fut_matched =
     \<lparr>fut_host = ex_host, fut_net = env_exit ''/a/x\<newline>/b/y\<newline>'' [] 0,
      fut_sftp = env_get_missing\<rparr>"

definition fut_mkdir_denied :: future where
  "fut_mkdir_denied =
     \<lparr>fut_host = ex_host, fut_net = env_exit ''/a/x\<newline>/b/y\<newline>'' [] 0,
      fut_sftp = env_mkdir_denied\<rparr>"

definition fut_unreachable :: future where
  "fut_unreachable =
     \<lparr>fut_host = ex_host2, fut_net = env_unreachable (Exn OSError ''timed out''),
      fut_sftp = env_get_missing\<rparr>"

definition fut_no_match :: future where
  "fut_no_match =
     \<lparr>fut_host = ex_host2, fut_net = env_exit [] [] 1, fut_sftp = env_get_missing\<rparr>"

definition fut_matched2 :: future where
  "fut_matched2 =
     \<lparr>fut_host = ex_host2, fut_net = env_exit ''/c/z\<newline>'' [] 0, fut_sftp = env_get_missing\<rparr>"

text \<open>
  A standard output on which every \<^verbatim>\<open>print\<close> returns, and one that cannot encode the
  character \<^verbatim>\<open>e\<close> with acute accent (code point 233).
\<close>

definition stdout_ok :: stdout where
  "stdout_ok = (\<lambda>s. None)"

definition stdout_ascii :: stdout where
  "stdout_ascii =
     (\<lambda>s. if CHR 0xE9 \<in> set s then Some (Exn OtherException ''UnicodeEncodeError'') else None)"

text \<open>\<^verbatim>\<open>h1\<close> matched one file whose name holds that character.\<close>

definition fut_accent :: future where
  "fut_accent =
     \<lparr>fut_host = ex_host, fut_net = env_exit (''/a/'' @ [CHR 0xE9] @ ''\<newline>'') [] 0,
      fut_sftp = env_get_missing\<rparr>"

section \<open>Properties\<close>

subsection \<open>Evaluation of the examples\<close>

lemma hostname_ex: "hostname ex_host = ''h1''"
  by (simp add: ex_host_def)

lemma hostname_ex2: "hostname ex_host2 = ''h2''"
  by (simp add: ex_host2_def)

lemma local_path_ex:
  "local_path_of ''out'' ex_host ''/a/x'' = ''out/h1/a/x''"
  "local_path_of ''out'' ex_host ''/b/y'' = ''out/h1/b/y''"
  by (simp_all add: local_path_of_def ex_host_def os_path_join_def join_step_def
      lstrip_slash_def)

lemma dirname_ex:
  "os_path_dirname ''out/h1/a/x'' = ''out/h1/a''"
  "os_path_dirname ''out/h1/b/y'' = ''out/h1/b''"
  by (simp_all add: os_path_dirname_def rstrip_slash_def)

lemma parse_paths_stray: "parse_paths ''stray\<newline>'' = [''stray'']"
  by (simp add: parse_paths_def splitlines_def strip_def is_space_def is_linebreak_def)

lemma parse_paths_empty: "parse_paths [] = []"
  by (simp add: parse_paths_def splitlines_def)

lemma parse_paths_two: "parse_paths ''/a/x\<newline>/b/y\<newline>'' = [''/a/x'', ''/b/y'']"
  by (simp add: parse_paths_def splitlines_def strip_def is_space_def is_linebreak_def)

lemma ex_args_fields:
  "download ex_args = 1" "dest ex_args = ''out''" "timeout ex_args = 120"
  by (simp_all add: ex_args_def)

lemma fut_fields:
  "fut_host fut_matched = ex_host" "fut_sftp fut_matched = env_get_missing"
  "fut_host fut_mkdir_denied = ex_host" "fut_sftp fut_mkdir_denied = env_mkdir_denied"
  by (simp_all add: fut_matched_def fut_mkdir_denied_def)

lemma fut_result_matched:
  "fut_result ex_args fut_matched = (''h1'', 0, [''/a/x'', ''/b/y''], [])"
  by (simp add: fut_result_def fut_matched_def run_list_on_host_def env_exit_def hostname_ex
      parse_paths_two)

lemma fut_result_mkdir_denied:
  "fut_result ex_args fut_mkdir_denied = (''h1'', 0, [''/a/x'', ''/b/y''], [])"
  by (simp add: fut_result_def fut_mkdir_denied_def run_list_on_host_def env_exit_def
      hostname_ex parse_paths_two)

lemma fut_result_unreachable:
  "fut_result ex_args fut_unreachable = (''h2'', 255, [], ''SSH/Network error: timed out'')"
  by (simp add: fut_result_def fut_unreachable_def run_list_on_host_def env_unreachable_def
      hostname_ex2 caught_ssh_network_def)

lemma fut_result_no_match:
  "fut_result ex_args fut_no_match = (''h2'', 1, [], [])"
  by (simp add: fut_result_def fut_no_match_def run_list_on_host_def env_exit_def
      hostname_ex2 parse_paths_empty)

lemma retrieval_get_missing:
  "sftp_download_files env_get_missing ex_host [''/a/x'', ''/b/y''] ''out'' 120
     = (Inr [(''/b/y'', ''out/h1/b/y'')],
        \<lparr>downloaded = [(''/b/y'', ''out/h1/b/y'')],
         stderr_lines = [''[WARN] h1: Remote file not found: /a/x''],
         get_calls = [''/a/x'', ''/b/y'']\<rparr>)"
  by (simp add: sftp_download_files_def session_error_def env_get_missing_def local_path_ex
      dirname_ex dl_init_def get_warning_def hostname_ex)

lemma retrieval_mkdir_denied:
  "sftp_download_files env_mkdir_denied ex_host [''/a/x'', ''/b/y''] ''out'' 120
     = (Inl (Exn PermissionError ''denied''), dl_init)"
  by (simp add: sftp_download_files_def session_error_def env_mkdir_denied_def local_path_ex
      dirname_ex)

lemma prints_stdout_ok: "prints stdout_ok ss = None"
  by (induction ss) (simp_all add: stdout_ok_def)

lemma print_host_results_ok: "print_host_results stdout_ok hn c ps e = None"
  by (simp add: print_host_results_def prints_stdout_ok)

lemma fut_result_matched2:
  "fut_result ex_args fut_matched2 = (''h2'', 0, [''/c/z''], [])"
  by (simp add: fut_result_def fut_matched2_def run_list_on_host_def env_exit_def hostname_ex2
      parse_paths_def splitlines_def strip_def is_space_def is_linebreak_def)

lemma fut_fields2:
  "fut_host fut_matched2 = ex_host2" "fut_sftp fut_matched2 = env_get_missing"
  by (simp_all add: fut_matched2_def)

lemma retrieval_h2:
  "sftp_download_files env_get_missing ex_host2 [''/c/z''] ''out'' 120
     = (Inr [(''/c/z'', ''out/h2/c/z'')],
        \<lparr>downloaded = [(''/c/z'', ''out/h2/c/z'')], stderr_lines = [],
         get_calls = [''/c/z'']\<rparr>)"
  by (simp add: sftp_download_files_def session_error_def env_get_missing_def
      local_path_of_def ex_host2_def os_path_join_def join_step_def lstrip_slash_def
      os_path_dirname_def rstrip_slash_def dl_init_def)

lemma handle_matched:
  "handle_future stdout_ok ex_args fut_matched st =
     (st\<lparr>results := results st @ [(''h1'', 0, 2)],
         retrievals := retrievals st @
           [(ex_host, [''/a/x'', ''/b/y''],
             \<lparr>downloaded = [(''/b/y'', ''out/h1/b/y'')],
              stderr_lines = [''[WARN] h1: Remote file not found: /a/x''],
              get_calls = [''/a/x'', ''/b/y'']\<rparr>)],
         downloads_summary := downloads_summary st @ [(''h1'', ''/b/y'', ''out/h1/b/y'')]\<rparr>,
      None)"
  by (simp add: handle_future_def fut_result_matched ex_args_fields retrieval_get_missing
      fut_fields print_host_results_ok prints_stdout_ok)

lemma handle_mkdir_denied:
  "handle_future stdout_ok ex_args fut_mkdir_denied st =
     (st\<lparr>results := results st @ [(''h1'', 0, 2)],
         retrievals := retrievals st @ [(ex_host, [''/a/x'', ''/b/y''], dl_init)]\<rparr>,
      Some (Exn PermissionError ''denied''))"
  by (simp add: handle_future_def fut_result_mkdir_denied ex_args_fields retrieval_mkdir_denied
      fut_fields print_host_results_ok)

lemma handle_unreachable:
  "handle_future stdout_ok ex_args fut_unreachable st =
     (st\<lparr>results := results st @ [(''h2'', 255, 0)]\<rparr>, None)"
  by (simp add: handle_future_def fut_result_unreachable print_host_results_ok)

lemma handle_no_match:
  "handle_future stdout_ok ex_args fut_no_match st =
     (st\<lparr>results := results st @ [(''h2'', 1, 0)]\<rparr>, None)"
  by (simp add: handle_future_def fut_result_no_match print_host_results_ok)

lemma handle_matched2:
  "handle_future stdout_ok ex_args fut_matched2 st
     = (st\<lparr>results := results st @ [(''h2'', 0, 1)],
           retrievals := retrievals st @
             [(ex_host2, [''/c/z''],
               \<lparr>downloaded = [(''/c/z'', ''out/h2/c/z'')], stderr_lines = [],
                get_calls = [''/c/z'']\<rparr>)],
           downloads_summary := downloads_summary st @ [(''h2'', ''/c/z'', ''out/h2/c/z'')]\<rparr>,
        None)"
  by (simp add: handle_future_def fut_result_matched2 ex_args_fields retrieval_h2 fut_fields2
      print_host_results_ok prints_stdout_ok)

lemma counts_ex:
  "total_hosts [(''h2'', 255, 0), (''h1'', 0, 2)] = 2"
  "matched_hosts [(''h2'', 255, 0), (''h1'', 0, 2)] = 1"
  "no_match_hosts [(''h2'', 255, 0), (''h1'', 0, 2)] = 1"
  "error_hosts [(''h2'', 255, 0), (''h1'', 0, 2)] = 1"
  by (simp_all add: total_hosts_def matched_hosts_def no_match_hosts_def error_hosts_def
      count_if_def)

lemma main_ex_unreachable_matched:
  "main stdout_ok ex_args (Inr [ex_host, ex_host2]) [fut_unreachable, fut_matched]
     = Returned 1 (Some \<lparr>hosts_total = 2, matches_on = 1, no_matches = 1, errors = 1,
                           files_downloaded = Some 1\<rparr>)"
  by (simp add: main_def handle_unreachable handle_matched sched_init_def summary_def
      counts_ex ex_args_fields prints_stdout_ok)

text \<open>
  A \<^verbatim>\<open>print\<close> that raises in \<^verbatim>\<open>print_host_results\<close> ends the loop body before
  \<^verbatim>\<open>results.append\<close>: on a standard output that cannot encode the file name, the host
  is not recorded and the exception leaves \<^verbatim>\<open>main\<close>.
\<close>

lemma fut_result_accent:
  "fut_result ex_args fut_accent = (''h1'', 0, [''/a/'' @ [CHR 0xE9]], [])"
  by (simp add: fut_result_def fut_accent_def run_list_on_host_def env_exit_def hostname_ex
      parse_paths_def splitlines_def strip_def is_space_def is_linebreak_def)

lemma str_int_0: "str_int 0 = ''0''"
  by (simp add: str_int_def str_nat.simps digit_char_def)

lemma handle_accent:
  "handle_future stdout_ascii ex_args fut_accent st
     = (st, Some (Exn OtherException ''UnicodeEncodeError''))"
  by (simp add: handle_future_def fut_result_accent print_host_results_def host_report_def
      stdout_ascii_def sep_def exit_message_def str_int_0)


lemma main_print_raises:
  "main stdout_ascii ex_args (Inr [ex_host]) [fut_accent]
     = Raised (Exn OtherException ''UnicodeEncodeError'')"
  by (simp add: main_def handle_accent)

subsection \<open>The command formatter\<close>

text \<open>
  Claim C7 (the search term is matched as a literal string, after an end-of-options
  marker, and the path pattern is left unquoted). The formatter does place \<^verbatim>\<open>--\<close> before
  the term and does leave the path pattern as it is inside the inner command, but the
  options it passes to \<^verbatim>\<open>grep\<close> are \<^verbatim>\<open>-iln\<close>: there is no \<^verbatim>\<open>-F\<close>, so the remote
  \<^verbatim>\<open>grep\<close> reads the term as a basic regular expression. For the term \<^verbatim>\<open>a.c\<close> the command
  is \<^verbatim>\<open>bash -c 'LC_ALL=C grep -iln -- a.c /var/log/*'\<close>, in which the dot matches any
  character. The module's own documentation says that \<^verbatim>\<open>grep -F -l\<close> is used and that the
  search string is literal.
\<close>

theorem build_list_command_regex_term:
  "build_list_command ''a.c'' ''/var/log/*''
     = ''bash -c '' @ [CHR 0x27] @ ''LC_ALL=C grep -iln -- a.c /var/log/*'' @ [CHR 0x27]"
  by (simp add: build_list_command_def build_list_inner_def shlex_quote_def find_unsafe_def
      shlex_safe_chars_def replace_quote_def)

subsection \<open>The remote search runner\<close>

text \<open>
  Claim C2 as stated (exit status 1 gives an empty list of matched paths whatever the
  output) fails: with the line \<^verbatim>\<open>stray\<close> on standard output and exit status 1 the runner
  returns the path list \<^verbatim>\<open>["stray"]\<close>.
\<close>

theorem exit_1_stray_output_kept:
  "fst (run_list_on_host (env_exit ''stray\<newline>'' [] 1) ex_host ''x'' ''/p'' 120)
     = Inr (''h1'', 1, [''stray''], [])"
  by (simp add: run_list_on_host_def env_exit_def hostname_ex parse_paths_stray)

text \<open>
  Claim C2, amended: for a remote execution that finishes with exit status 1 the runner
  returns exit code 1, which is classified as no match, and the matched paths are the
  stripped non-blank lines of standard output; the list is empty exactly when standard
  output has no non-blank line.
\<close>

theorem run_list_exit_status_1:
  assumes "connect env host t = None"
    and "exec_command env (build_list_command s p) t = Inr (out, err, 1)"
  shows "fst (run_list_on_host env host s p t) = Inr (hostname host, 1, parse_paths out, err)
    \<and> outcome_status 1 = NoMatch
    \<and> (parse_paths out = [] \<longleftrightarrow> list_all (\<lambda>line. strip line = []) (splitlines out))"
  using assms
  by (simp add: run_list_on_host_def outcome_status_def parse_paths_def filter_empty_conv
      list_all_iff)

text \<open>The amended claim C2 at the input of the counterexample.\<close>

theorem run_list_exit_status_1_witness:
  "fst (run_list_on_host (env_exit ''stray\<newline>'' [] 1) ex_host ''x'' ''/p'' 120)
     = Inr (''h1'', 1, [''stray''], [])
   \<and> outcome_status 1 = NoMatch"
proof -
  let ?env = "env_exit ''stray\<newline>'' [] 1"
  have c: "connect ?env ex_host 120 = None"
    by (simp add: env_exit_def)
  have x: "exec_command ?env (build_list_command ''x'' ''/p'') 120
             = Inr (''stray\<newline>'', [], 1)"
    by (simp add: env_exit_def)
  from run_list_exit_status_1 [OF c x] show ?thesis
    by (simp add: hostname_ex parse_paths_stray)
qed

text \<open>
  Claim C8 as stated (the sentinel code of a connection failure differs from every code a
  remote command can return) fails: a command that is executed and exits with status 255
  yields the very tuple that a connection time-out yields.
\<close>

theorem exit_255_equals_sentinel:
  "run_list_on_host (env_exit [] ''SSH/Network error: timed out'' 255) ex_host ''x'' ''/p'' 120
     = (Inr (''h1'', 255, [], ''SSH/Network error: timed out''), [build_list_command ''x'' ''/p''])
   \<and> fst (run_list_on_host (env_unreachable (Exn OSError ''timed out'')) ex_host ''x'' ''/p'' 120)
     = Inr (''h1'', 255, [], ''SSH/Network error: timed out'')"
  by (simp add: run_list_on_host_def env_exit_def env_unreachable_def hostname_ex
      parse_paths_empty caught_ssh_network_def)

text \<open>
  Claim C8, amended: when session establishment fails with an authentication, SSH or socket
  error, the runner returns the exit code 255, classified as a connection failure and
  distinct from the search exit codes 0, 1 and 2 (not from every code a remote command can
  return), with no matched paths, and no command is executed on the host.
\<close>

theorem connection_failure_sentinel:
  assumes "connect env host t = Some e" and "caught_ssh_network e"
  shows "run_list_on_host env host s p t
           = (Inr (hostname host, 255, [], ''SSH/Network error: '' @ exn_str e), [])
    \<and> outcome_status 255 = ConnectionFailure
    \<and> (255::int) \<notin> {0, 1, 2}"
  using assms by (simp add: run_list_on_host_def outcome_status_def)

text \<open>The amended claim C8 for a rejected password.\<close>

theorem connection_failure_sentinel_witness:
  "run_list_on_host (env_unreachable (Exn AuthenticationException ''bad password'')) ex_host
       ''x'' ''/p'' 120
     = (Inr (''h1'', 255, [], ''SSH/Network error: bad password''), [])
   \<and> outcome_status 255 = ConnectionFailure"
proof -
  let ?e = "Exn AuthenticationException ''bad password''"
  have c: "connect (env_unreachable ?e) ex_host 120 = Some ?e"
    by (simp add: env_unreachable_def)
  have k: "caught_ssh_network ?e"
    by (simp add: caught_ssh_network_def)
  from connection_failure_sentinel [OF c k] show ?thesis
    by (simp add: hostname_ex)
qed

subsection \<open>The artifact retriever\<close>



text \<open>
  Claim C3 (a failure to create the local directories for one file does not abort the
  remaining files, and no exception leaves the retriever) does not hold of the code:
  \<^verbatim>\<open>os.makedirs\<close> stands outside the \<^verbatim>\<open>try\<close> that guards \<^verbatim>\<open>sftp.get\<close>. With the paths
  \<^verbatim>\<open>/a/x\<close> and \<^verbatim>\<open>/b/y\<close>, when \<^verbatim>\<open>out/h1/a\<close> cannot be created, the function raises the
  \<^verbatim>\<open>PermissionError\<close> and \<^verbatim>\<open>sftp.get\<close> has been called for neither file, although the
  directory of the second could be created.
\<close>

theorem makedirs_failure_aborts_batch:
  "sftp_download_files env_mkdir_denied ex_host [''/a/x'', ''/b/y''] ''out'' 120
     = (Inl (Exn PermissionError ''denied''), dl_init)
   \<and> mkdir_ok env_mkdir_denied ''out'' ex_host ''/b/y''"
proof -
  have "mkdir_ok env_mkdir_denied ''out'' ex_host ''/b/y''"
    by (simp add: mkdir_ok_def env_mkdir_denied_def local_path_ex dirname_ex)
  with retrieval_mkdir_denied show ?thesis
    by simp
qed




subsection \<open>The scheduler loop\<close>

text \<open>
  The loop body, case by case, and the loop as a whole: it raises exactly when the body
  raises for some future, and otherwise every completed future has added its tuple to
  \<open>results\<close>, its transfers to \<open>downloads_summary\<close> and, if it qualified, its retrieval.
\<close>

lemma handle_future_unfold:
  "handle_future out a f st =
     (case print_host_results out (fst (fut_result a f)) (exit_code_of (fut_result a f))
             (paths_of (fut_result a f)) (snd (snd (snd (fut_result a f)))) of
        Some e \<Rightarrow> (st, Some e)
      | None \<Rightarrow>
          (if wants_retrieval a f
           then (case fst (retrieval_run a f) of
                   Inl e \<Rightarrow>
                     (st\<lparr>results := results st @ [result_entry a f],
                         retrievals := retrievals st @
                           [(fut_host f, paths_of (fut_result a f), snd (retrieval_run a f))]\<rparr>,
                      Some e)
                 | Inr dl \<Rightarrow>
                     (case prints out (download_report (fst (fut_result a f)) dl) of
                        Some e \<Rightarrow>
                          (st\<lparr>results := results st @ [result_entry a f],
                              retrievals := retrievals st @
                                [(fut_host f, paths_of (fut_result a f),
                                  snd (retrieval_run a f))]\<rparr>,
                           Some e)
                      | None \<Rightarrow>
                          (st\<lparr>results := results st @ [result_entry a f],
                              retrievals := retrievals st @
                                [(fut_host f, paths_of (fut_result a f),
                                  snd (retrieval_run a f))],
                              downloads_summary := downloads_summary st
                                @ map (\<lambda>(r, l). (fst (fut_result a f), r, l)) dl\<rparr>,
                           None)))
           else (st\<lparr>results := results st @ [result_entry a f]\<rparr>, None)))"
proof -
  obtain hn code ps err where r: "fut_result a f = (hn, code, ps, err)"
    by (cases "fut_result a f") auto
  have w: "wants_retrieval a f = (download a = 1 \<and> code = 0 \<and> ps \<noteq> [])"
    by (simp add: wants_retrieval_def r exit_code_of_def paths_of_def)
  have e: "result_entry a f = (hn, code, length ps)"
    by (simp add: result_entry_def r exit_code_of_def paths_of_def)
  have p: "paths_of (fut_result a f) = ps" "exit_code_of (fut_result a f) = code"
    by (simp_all add: r exit_code_of_def paths_of_def)
  have u: "retrieval_run a f
             = sftp_download_files (fut_sftp f) (fut_host f) ps (dest a) (timeout a)"
    by (simp add: retrieval_run_def p)
  show ?thesis
  proof (cases "print_host_results out hn code ps err")
    case (Some x)
    then show ?thesis
      by (simp add: handle_future_def r exit_code_of_def paths_of_def)
  next
    case None
    show ?thesis
    proof (cases "download a = 1 \<and> code = 0 \<and> ps \<noteq> []")
      case True
      with w have "wants_retrieval a f" by simp
      with True None show ?thesis
        by (simp add: handle_future_def r exit_code_of_def paths_of_def result_entry_def
            retrieval_run_def Let_def split: sum.split option.split)
    next
      case False
      with w have "\<not> wants_retrieval a f" by simp
      with None False show ?thesis
        by (auto simp add: handle_future_def r exit_code_of_def paths_of_def result_entry_def
            Let_def)
    qed
  qed
qed

lemma handle_future_exn: "snd (handle_future out a f st) = future_exn out a f"
  by (simp add: handle_future_unfold future_exn_def split: option.split sum.split)

lemma handle_future_returns:
  "future_exn out a f = None \<Longrightarrow>
   handle_future out a f st =
     (st\<lparr>results := results st @ [result_entry a f],
         retrievals := retrievals st @
           (if wants_retrieval a f
            then [(fut_host f, paths_of (fut_result a f), snd (retrieval_run a f))] else []),
         downloads_summary := downloads_summary st @ host_downloads a f\<rparr>,
      None)"
  by (simp add: handle_future_unfold future_exn_def host_downloads_def
      split: option.splits sum.splits if_splits)

lemma main_loop_returns:
  "list_all (\<lambda>f. future_exn out a f = None) fs \<Longrightarrow>
   main_loop out a fs st =
     (st\<lparr>results := results st @ map (result_entry a) fs,
         retrievals := retrievals st @
           map (\<lambda>f. (fut_host f, paths_of (fut_result a f), snd (retrieval_run a f)))
             (filter (wants_retrieval a) fs),
         downloads_summary := downloads_summary st @ concat (map (host_downloads a) fs)\<rparr>,
      None)"
proof (induction fs arbitrary: st)
  case Nil
  then show ?case by simp
next
  case (Cons f fs)
  then have f: "future_exn out a f = None"
    and rest: "list_all (\<lambda>f. future_exn out a f = None) fs"
    by simp_all
  show ?case
    using Cons.IH [OF rest] by (simp add: handle_future_returns [OF f])
qed

lemma main_loop_raises:
  "\<not> list_all (\<lambda>f. future_exn out a f = None) fs \<Longrightarrow> snd (main_loop out a fs st) \<noteq> None"
proof (induction fs arbitrary: st)
  case Nil
  then show ?case by simp
next
  case (Cons f fs)
  show ?case
  proof (cases "future_exn out a f")
    case None
    with Cons.prems have "\<not> list_all (\<lambda>f. future_exn out a f = None) fs" by simp
    from Cons.IH [OF this] None show ?thesis
      by (simp add: handle_future_returns)
  next
    case (Some e)
    then have "snd (handle_future out a f st) = Some e"
      by (simp add: handle_future_exn)
    then show ?thesis by (cases "handle_future out a f st") simp
  qed
qed

lemma main_loop_returns_iff:
  "snd (main_loop out a fs st) = None \<longleftrightarrow> list_all (\<lambda>f. future_exn out a f = None) fs"
proof (cases "list_all (\<lambda>f. future_exn out a f = None) fs")
  case True
  then show ?thesis by (simp add: main_loop_returns)
next
  case False
  then show ?thesis by (simp add: main_loop_raises)
qed

lemma main_after_loop:
  "list_all (\<lambda>f. future_exn out a f = None) completed \<Longrightarrow>
   main out a (Inr hosts) completed =
     (case prints out (summary_report (summary a
              \<lparr>results = map (result_entry a) completed,
               downloads_summary = concat (map (host_downloads a) completed),
               retrievals =
                 map (\<lambda>f. (fut_host f, paths_of (fut_result a f), snd (retrieval_run a f)))
                   (filter (wants_retrieval a) completed)\<rparr>)) of
        Some e \<Rightarrow> Raised e
      | None \<Rightarrow>
          Returned (if error_hosts (map (result_entry a) completed) = 0 then 0 else 1)
            (Some (summary a
              \<lparr>results = map (result_entry a) completed,
               downloads_summary = concat (map (host_downloads a) completed),
               retrievals =
                 map (\<lambda>f. (fut_host f, paths_of (fut_result a f), snd (retrieval_run a f)))
                   (filter (wants_retrieval a) completed)\<rparr>)))"
  by (simp add: main_def main_loop_returns sched_init_def)

lemma main_raised_in_loop:
  "\<not> list_all (\<lambda>f. future_exn out a f = None) completed \<Longrightarrow>
   returned (main out a (Inr hosts) completed) = None"
proof -
  assume "\<not> list_all (\<lambda>f. future_exn out a f = None) completed"
  then have "snd (main_loop out a completed sched_init) \<noteq> None"
    by (rule main_loop_raises)
  then obtain st e where "main_loop out a completed sched_init = (st, Some e)"
    by (cases "main_loop out a completed sched_init") auto
  then show ?thesis by (simp add: main_def)
qed

lemma main_returned_loop:
  assumes r: "main out a (Inr hosts) completed = Returned rc sm"
  shows "list_all (\<lambda>f. future_exn out a f = None) completed"
proof (rule ccontr)
  assume "\<not> list_all (\<lambda>f. future_exn out a f = None) completed"
  then have "returned (main out a (Inr hosts) completed) = None"
    by (simp add: main_raised_in_loop)
  with r show False by simp
qed

text \<open>
  Classification of exit codes, and what a failed worker leaves in the result tuple.
\<close>

lemma outcome_status_error_iff:
  "outcome_status c \<in> {RemoteError, ConnectionFailure} \<longleftrightarrow> c \<notin> {0, 1}"
  by (simp add: outcome_status_def)

lemma outcome_status_matched_iff: "outcome_status c = Matched \<longleftrightarrow> c = 0"
  by (simp add: outcome_status_def)

lemma fut_result_hostname: "fst (fut_result a f) = hostname (fut_host f)"
  by (auto simp add: fut_result_def run_list_on_host_def Let_def
      split: option.splits sum.splits prod.splits)

lemma worker_failed_result:
  "worker_failed a f \<Longrightarrow>
   exit_code_of (fut_result a f) = 255 \<and> paths_of (fut_result a f) = []"
  by (auto simp add: worker_failed_def fut_result_def run_list_on_host_def exit_code_of_def
      paths_of_def Let_def split: option.splits sum.splits prod.splits if_splits)

text \<open>
  In a run in which the loop body raises for no future, the loop appends one tuple per
  completed future, hence one per submitted host, under the host's own name.
\<close>

lemma results_one_per_host:
  assumes "list_all (\<lambda>f. future_exn out a f = None) completed"
    and "mset (map fut_host completed) = mset hosts"
  shows "results (fst (main_loop out a completed sched_init)) = map (result_entry a) completed"
    and "length (results (fst (main_loop out a completed sched_init))) = length hosts"
    and "mset (map fst (results (fst (main_loop out a completed sched_init))))
           = mset (map hostname hosts)"
proof -
  show r: "results (fst (main_loop out a completed sched_init))
             = map (result_entry a) completed"
    using assms(1) by (simp add: main_loop_returns sched_init_def)
  have "length hosts = length completed"
    using assms(2) by (metis length_map size_mset)
  then show "length (results (fst (main_loop out a completed sched_init))) = length hosts"
    using r by simp
  have "map fst (map (result_entry a) completed) = map hostname (map fut_host completed)"
    by (simp add: result_entry_def fut_result_hostname)
  then have "mset (map fst (map (result_entry a) completed))
               = image_mset hostname (mset (map fut_host completed))"
    by (simp only: mset_map)
  then show "mset (map fst (results (fst (main_loop out a completed sched_init))))
           = mset (map hostname hosts)"
    using r assms(2) by simp
qed

text \<open>
  Claim C1 (exactly one outcome record per submitted host, for every list of hosts) does
  not hold of the code when a retrieval raises. With \<^verbatim>\<open>--download 1\<close> and the two hosts
  \<^verbatim>\<open>h1\<close> and \<^verbatim>\<open>h2\<close>, when \<^verbatim>\<open>h1\<close> completes first with two matched files and the local
  directory of the first cannot be created, the exception of \<^verbatim>\<open>os.makedirs\<close> leaves
  \<^verbatim>\<open>sftp_download_files\<close> and \<^verbatim>\<open>main\<close>: \<open>results\<close> holds the one tuple of \<^verbatim>\<open>h1\<close>, and
  the unreachable host \<^verbatim>\<open>h2\<close> never receives its connection-failure record.
\<close>

theorem retrieval_exception_drops_hosts:
  "main stdout_ok ex_args (Inr [ex_host, ex_host2]) [fut_mkdir_denied, fut_unreachable]
     = Raised (Exn PermissionError ''denied'')
   \<and> results (fst (main_loop stdout_ok ex_args [fut_mkdir_denied, fut_unreachable] sched_init))
     = [(''h1'', 0, 2)]"
  by (simp add: main_def handle_mkdir_denied sched_init_def)

text \<open>
  When the host report of a completed future has been printed, the loop body calls
  \<^verbatim>\<open>sftp_download_files\<close> if and only if \<^verbatim>\<open>--download\<close> is 1, the exit code is classified
  as matched and the list of matched paths is not empty; the recorded retrieval holds what
  that call did.
\<close>

lemma handled_future_retrieval:
  assumes "print_host_results out (fst (fut_result a f)) (exit_code_of (fut_result a f))
             (paths_of (fut_result a f)) (snd (snd (snd (fut_result a f)))) = None"
  shows "retrievals (fst (handle_future out a f st)) =
     retrievals st @
       (if download a = 1 \<and> outcome_status (exit_code_of (fut_result a f)) = Matched
           \<and> paths_of (fut_result a f) \<noteq> []
        then [(fut_host f, paths_of (fut_result a f), snd (retrieval_run a f))] else [])"
proof (cases "wants_retrieval a f")
  case True
  with assms show ?thesis
    by (simp add: handle_future_unfold wants_retrieval_def outcome_status_matched_iff
        split: sum.split option.split)
next
  case False
  with assms show ?thesis
    by (auto simp add: handle_future_unfold wants_retrieval_def outcome_status_matched_iff)
qed

text \<open>
  Claim C6 (for every host, retrieval is invoked if and only if the host matched, has
  matched paths and the retrieval flag is set) does not hold of the code for a host whose
  future completes after the loop has been left by an exception. With \<^verbatim>\<open>--download 1\<close>,
  the host \<^verbatim>\<open>h2\<close> has exit status 0 and the matched path \<^verbatim>\<open>/c/z\<close>; handled alone, its
  file is retrieved. When \<^verbatim>\<open>h1\<close> completes first and the local directory of its first
  file cannot be created, the loop ends with that exception: no retrieval is invoked for
  \<^verbatim>\<open>h2\<close> and nothing is downloaded.
\<close>

theorem aborted_loop_skips_qualifying_host:
  "download ex_args = 1
   \<and> outcome_status (exit_code_of (fut_result ex_args fut_matched2)) = Matched
   \<and> paths_of (fut_result ex_args fut_matched2) = [''/c/z'']
   \<and> main_loop stdout_ok ex_args [fut_mkdir_denied, fut_matched2] sched_init
     = (\<lparr>results = [(''h1'', 0, 2)], downloads_summary = [],
         retrievals = [(ex_host, [''/a/x'', ''/b/y''], dl_init)]\<rparr>,
        Some (Exn PermissionError ''denied''))
   \<and> main_loop stdout_ok ex_args [fut_matched2] sched_init
     = (\<lparr>results = [(''h2'', 0, 1)],
         downloads_summary = [(''h2'', ''/c/z'', ''out/h2/c/z'')],
         retrievals = [(ex_host2, [''/c/z''],
                        \<lparr>downloaded = [(''/c/z'', ''out/h2/c/z'')], stderr_lines = [],
                         get_calls = [''/c/z'']\<rparr>)]\<rparr>,
        None)"
  by (simp add: ex_args_fields fut_result_matched2 exit_code_of_def paths_of_def
      outcome_status_def handle_mkdir_denied handle_matched2 sched_init_def)


subsection \<open>The summary and the exit signal\<close>

lemma count_if_length: "count_if P xs = length (filter P xs)"
  by (simp add: count_if_def sum_list_triv)

lemma count_if_mset: "count_if P xs = size (filter_mset P (mset xs))"
  by (simp add: count_if_length flip: mset_filter)

lemma error_hosts_zero_iff:
  "error_hosts (map (result_entry a) fs) = 0
     \<longleftrightarrow> \<not> list_ex (\<lambda>f. exit_code_of (fut_result a f) \<notin> {0, 1}) fs"
  by (induction fs) (auto simp add: error_hosts_def count_if_def result_entry_def)

text \<open>
  Whenever \<^verbatim>\<open>main\<close> returns after a loaded configuration, the value it returns is
  non-zero if and only if at least one host ended with an exit code classified as a
  remote error or a connection failure.
\<close>

lemma returned_exit_value:
  assumes r: "main out a (Inr hosts) completed = Returned rc sm"
  shows "(rc \<noteq> 0) = list_ex (\<lambda>f. outcome_status (exit_code_of (fut_result a f))
                                  \<in> {RemoteError, ConnectionFailure}) completed"
proof -
  have "list_all (\<lambda>f. future_exn out a f = None) completed"
    using r by (rule main_returned_loop)
  from main_after_loop [OF this, of hosts] r
  have "rc = (if error_hosts (map (result_entry a) completed) = 0 then 0 else 1)"
    by (simp split: option.splits)
  then have "(rc \<noteq> 0) = list_ex (\<lambda>f. exit_code_of (fut_result a f) \<notin> {0, 1}) completed"
    by (simp add: error_hosts_zero_iff)
  then show ?thesis
    by (simp only: outcome_status_error_iff)
qed

text \<open>
  Claim C5 (for every run, the exit signal of the process is non-zero if and only if a host
  ended in a remote error or a connection failure) does not hold of the code when an
  exception leaves \<^verbatim>\<open>main\<close>. With \<^verbatim>\<open>--download 1\<close> and the single host \<^verbatim>\<open>h1\<close>, which
  matched two files, when the local directory of the first cannot be created, \<^verbatim>\<open>main\<close>
  raises the \<^verbatim>\<open>PermissionError\<close> and the process exits with status 1, although the only
  host is classified as matched.
\<close>

theorem exception_exit_without_error_host:
  "main stdout_ok ex_args (Inr [ex_host]) [fut_mkdir_denied]
     = Raised (Exn PermissionError ''denied'')
   \<and> process_exit_status (main stdout_ok ex_args (Inr [ex_host]) [fut_mkdir_denied]) = 1
   \<and> outcome_status (exit_code_of (fut_result ex_args fut_mkdir_denied)) = Matched"
  by (simp add: main_def handle_mkdir_denied sched_init_def process_exit_status_def
      fut_result_mkdir_denied exit_code_of_def outcome_status_def)


lemma list_all_mset: "mset xs = mset ys \<Longrightarrow> list_all P xs = list_all P ys"
  by (auto simp add: list_all_iff dest: mset_eq_setD)

lemma count_if_map_mset:
  assumes "mset xs = mset ys"
  shows "count_if P (map g xs) = count_if P (map g ys)"
proof -
  have "mset (map g xs) = mset (map g ys)"
    using assms by (simp only: mset_map)
  then show ?thesis
    by (simp only: count_if_mset)
qed

lemma length_concat_map_mset:
  assumes "mset xs = mset ys"
  shows "length (concat (map g xs)) = length (concat (map g ys))"
proof -
  have "length (concat (map g xs)) = sum_mset (image_mset (\<lambda>x. length (g x)) (mset xs))"
    by (simp add: length_concat comp_def flip: sum_mset_sum_list)
  also have "\<dots> = sum_mset (image_mset (\<lambda>x. length (g x)) (mset ys))"
    using assms by simp
  also have "\<dots> = length (concat (map g ys))"
    by (simp add: length_concat comp_def flip: sum_mset_sum_list)
  finally show ?thesis .
qed

lemma summary_counts:
  "summary a \<lparr>results = map (result_entry a) fs,
              downloads_summary = concat (map (host_downloads a) fs), retrievals = rs\<rparr>
     = \<lparr>hosts_total = length fs,
        matches_on = matched_hosts (map (result_entry a) fs),
        no_matches = no_match_hosts (map (result_entry a) fs),
        errors = error_hosts (map (result_entry a) fs),
        files_downloaded =
          (if download a = 1 then Some (length (concat (map (host_downloads a) fs)))
           else None)\<rparr>"
  by (simp add: summary_def total_hosts_def)

text \<open>
  Claim C9: when the same completed futures arrive in another order, \<^verbatim>\<open>main\<close> returns
  the same value and prints the same summary counts (hosts total, matches, no matches,
  errors, files downloaded), or raises in both orders.
\<close>

theorem summary_order_independent:
  assumes "mset completed' = mset completed"
  shows "returned (main out a loaded completed') = returned (main out a loaded completed)"
proof (cases loaded)
  case (Inl e)
  then show ?thesis by (simp add: main_def)
next
  case (Inr hosts)
  have ok: "list_all (\<lambda>f. future_exn out a f = None) completed'
              = list_all (\<lambda>f. future_exn out a f = None) completed"
    using assms by (rule list_all_mset)
  show ?thesis
  proof (cases "list_all (\<lambda>f. future_exn out a f = None) completed")
    case False
    with ok Inr show ?thesis by (simp add: main_raised_in_loop)
  next
    case True
    have len: "length completed' = length completed"
      using assms by (metis size_mset)
    have cm: "count_if P (map (result_entry a) completed')
                = count_if P (map (result_entry a) completed)" for P
      using assms by (rule count_if_map_mset)
    have cnt: "matched_hosts (map (result_entry a) completed')
                 = matched_hosts (map (result_entry a) completed)"
      "no_match_hosts (map (result_entry a) completed')
                 = no_match_hosts (map (result_entry a) completed)"
      "error_hosts (map (result_entry a) completed')
                 = error_hosts (map (result_entry a) completed)"
      by (simp_all add: matched_hosts_def no_match_hosts_def error_hosts_def cm)
    have dls: "length (concat (map (host_downloads a) completed'))
                 = length (concat (map (host_downloads a) completed))"
      using assms by (rule length_concat_map_mset)
    from True ok have ok': "list_all (\<lambda>f. future_exn out a f = None) completed'" by simp
    show ?thesis
      by (simp only: Inr main_after_loop [OF True] main_after_loop [OF ok'] summary_counts
          len cnt dls)
  qed
qed

text \<open>
  Claim C9 on the examples: the two orders of a matched and an unreachable host.
\<close>

theorem summary_order_independent_witness:
  "mset [fut_matched, fut_unreachable] = mset [fut_unreachable, fut_matched]
   \<and> returned (main stdout_ok ex_args (Inr [ex_host, ex_host2]) [fut_matched, fut_unreachable])
     = Some (1, Some \<lparr>hosts_total = 2, matches_on = 1, no_matches = 1, errors = 1,
                       files_downloaded = Some 1\<rparr>)"
proof -
  have p: "mset [fut_matched, fut_unreachable] = mset [fut_unreachable, fut_matched]"
    by simp
  from summary_order_independent [OF p, of stdout_ok ex_args "Inr [ex_host, ex_host2]"]
    main_ex_unreachable_matched p
  show ?thesis by simp
qed


lemma counts_sum:
  "matched_hosts rs + no_match_hosts rs + error_hosts rs
     = total_hosts rs + count_if (\<lambda>(h, code, cnt). code \<notin> {0, 1} \<and> cnt = 0) rs"
proof (induction rs)
  case Nil
  then show ?case
    by (simp add: matched_hosts_def no_match_hosts_def error_hosts_def total_hosts_def
        count_if_def)
next
  case (Cons r rs)
  obtain h code cnt where r: "r = (h, code, cnt)"
    by (cases r) auto
  from Cons show ?case
    by (auto simp add: r matched_hosts_def no_match_hosts_def error_hosts_def total_hosts_def
        count_if_def)
qed

text \<open>
  Claim C10: a result is counted as a no-match if and only if its exit code is 1 or its
  number of matched paths is zero. So a connection failure (code 255, no paths) is counted
  as a no-match and as an error, a host with exit code 0 and no paths is counted as a
  no-match and not as matched, and the three counts add up to the number of hosts plus the
  number of hosts that have an error code and no paths: they do not partition the hosts.
\<close>

theorem no_match_count_overlaps:
  "no_match_hosts (rs @ [(h, code, cnt)])
     = no_match_hosts rs + (if code = 1 \<or> cnt = 0 then 1 else 0)
   \<and> no_match_hosts (rs @ [(h, 255, 0)]) = no_match_hosts rs + 1
   \<and> error_hosts (rs @ [(h, 255, 0)]) = error_hosts rs + 1
   \<and> no_match_hosts (rs @ [(h, 0, 0)]) = no_match_hosts rs + 1
   \<and> matched_hosts (rs @ [(h, 0, 0)]) = matched_hosts rs
   \<and> matched_hosts rs + no_match_hosts rs + error_hosts rs
       = total_hosts rs + count_if (\<lambda>(h, code, cnt). code \<notin> {0, 1} \<and> cnt = 0) rs
   \<and> matched_hosts [(h, 255, 0)] + no_match_hosts [(h, 255, 0)] + error_hosts [(h, 255, 0)]
       \<noteq> total_hosts [(h, 255, 0)]"
  by (simp add: counts_sum)
     (simp add: matched_hosts_def no_match_hosts_def error_hosts_def total_hosts_def
       count_if_def)

end
